theory Spec2Isabelle
  imports Main "HOL-Library.Word"
begin

section \<open>The exec response and its classification\<close>

text \<open>
  The demo scripts declare the agent's exec response as the TypeScript interface
  \<^verbatim>\<open>ExecResponse\<close>: every field is optional, so every field is an
  \<open>option\<close> here. \<open>None\<close> stands for \<^verbatim>\<open>undefined\<close> and for
  \<^verbatim>\<open>null\<close> alike: the helpers read the response only through
  \<^verbatim>\<open>?.\<close>, \<^verbatim>\<open>??\<close>, \<^verbatim>\<open>===\<close> and truthiness, none of
  which tells the two apart. A present field has the type the interface declares. The
  interface of \<^verbatim>\<open>demo-network.ts\<close> is the widest one (it has
  \<^verbatim>\<open>events\<close>); \<^verbatim>\<open>detect-sandbox.ts\<close> declares the same
  interface without \<^verbatim>\<open>events\<close> and never reads that field. Strings are
  sequences of code units below 256; exit codes are integers.
\<close>

record exec_error =
  code :: "string option"
  message :: "string option"
  policy_rule :: "string option"

record exec_result =
  exit_code :: "int option"
  stdout :: "string option"
  stderr :: "string option"
  error :: "exec_error option"

record exec_guidance =
  status :: "string option"
  blocked :: "bool option"
  reason :: "string option"
  guidance_policy_rule :: "string option"

record op_policy =
  rule :: "string option"
  policy_message :: "string option"

record blocked_operation =
  policy :: "op_policy option"

record exec_events =
  blocked_operations :: "blocked_operation list option"
  blocked_operations_count :: "int option"

record ExecResponse =
  result :: "exec_result option"
  guidance :: "exec_guidance option"
  events :: "exec_events option"

text \<open>\<^verbatim>\<open>a ?? d\<close>: the default replaces an absent value only.\<close>

definition nullish :: "'a option \<Rightarrow> 'a \<Rightarrow> 'a" where
  "nullish a d = (case a of None \<Rightarrow> d | Some v \<Rightarrow> v)"

text \<open>
  \<^verbatim>\<open>String.prototype.trim\<close> removes white space and line terminators from
  both ends. Among the code units below 256 these are tab, line feed, vertical tab, form
  feed, carriage return, space and the no-break space.
\<close>

definition is_space :: "char \<Rightarrow> bool" where
  "is_space c = (of_char c \<in> {9, 10, 11, 12, 13, 32, 160 :: nat})"

definition trim :: "string \<Rightarrow> string" where
  "trim s = rev (dropWhile is_space (rev (dropWhile is_space s)))"

text \<open>\<^verbatim>\<open>s.replace(/\n/g, "\\n")\<close>: each line feed becomes a backslash and an n.\<close>

definition escape_newlines :: "string \<Rightarrow> string" where
  "escape_newlines s = concat (map (\<lambda>c. if c = CHR 0x0A then [CHR 0x5C, CHR ''n''] else [c]) s)"

text \<open>
  The sandbox file system as far as the exec helpers use it: a map from paths to
  contents. \<^verbatim>\<open>readTextFile\<close> throws on a missing file, which is \<open>None\<close>.
\<close>

type_synonym filesystem = "string \<rightharpoonup> string"

definition readTextFile :: "filesystem \<Rightarrow> string \<Rightarrow> string option" where
  "readTextFile fs path = fs path"

definition result_path :: string where
  "result_path = ''/tmp/exec-result.json''"

subsection \<open>The three denial shapes and the success shape\<close>

text \<open>\<^verbatim>\<open>json.result?.error?.code === "E_POLICY_DENIED"\<close>\<close>

definition denial_error :: "ExecResponse \<Rightarrow> exec_error option" where
  "denial_error json = Option.bind (result json) error"

definition has_denial_code :: "ExecResponse \<Rightarrow> bool" where
  "has_denial_code json = (Option.bind (denial_error json) code = Some ''E_POLICY_DENIED'')"

text \<open>\<^verbatim>\<open>json.events?.blocked_operations ?? []\<close>\<close>

definition blockedOps :: "ExecResponse \<Rightarrow> blocked_operation list" where
  "blockedOps json = nullish (Option.bind (events json) blocked_operations) []"

text \<open>\<^verbatim>\<open>json.guidance?.blocked || json.guidance?.status === "blocked"\<close>\<close>

definition guidance_blocked :: "ExecResponse \<Rightarrow> bool" where
  "guidance_blocked json =
     (Option.bind (guidance json) blocked = Some True
      \<or> Option.bind (guidance json) status = Some ''blocked'')"

text \<open>\<^verbatim>\<open>json.result?.exit_code === 0\<close>\<close>

definition exit_zero :: "ExecResponse \<Rightarrow> bool" where
  "exit_zero json = (Option.bind (result json) exit_code = Some 0)"

subsection \<open>\<^verbatim>\<open>runAgentsh\<close> of the network demo\<close>

text \<open>
  Every return of \<^verbatim>\<open>runAgentsh\<close> is preceded by one verdict line on the
  console. The constructors below are the seven templates, carrying the values
  interpolated into them:
  \<^item> \<open>NoResponse\<close>: \<^verbatim>\<open>ERROR: no response from API\<close>
  \<^item> \<open>BlockedByRule rule\<close>: \<^verbatim>\<open>BLOCKED by policy rule: ${rule}\<close>
  \<^item> \<open>BlockedByNetworkPolicy rule msg\<close>:
    \<^verbatim>\<open>BLOCKED by network policy: ${rule}${msg ? ... : ""}\<close>
  \<^item> \<open>BlockedByGuidance rule reason\<close>: \<^verbatim>\<open>BLOCKED: ${rule}${reason ? ... : ""}\<close>
  \<^item> \<open>AllowedExit0 preview\<close>: \<^verbatim>\<open>ALLOWED (exit 0): ${preview}\<close>
  \<^item> \<open>BlockedNetworkLevel exitCode detail\<close>:
    \<^verbatim>\<open>BLOCKED (network-level, exit ${exitCode}): ${detail}\<close>
  \<^item> \<open>ParseFailed raw\<close>: \<^verbatim>\<open>ERROR: failed to parse response: ${raw}\<close>
\<close>

datatype verdict_line =
    NoResponse
  | BlockedByRule string
  | BlockedByNetworkPolicy string string
  | BlockedByGuidance string string
  | AllowedExit0 string
  | BlockedNetworkLevel int string
  | ParseFailed string

record RunResult =
  allowed :: bool
  outputText :: string

text \<open>
  The body of the second \<^verbatim>\<open>try\<close> block after \<^verbatim>\<open>JSON.parse\<close>
  has returned: checks 1 to 5, in the order of the source. \<open>output\<close> is the raw text
  read from the result file.
\<close>

definition classify :: "ExecResponse \<Rightarrow> string \<Rightarrow> verdict_line \<times> RunResult" where
  "classify json output =
     (if has_denial_code json then
        (BlockedByRule (nullish (Option.bind (denial_error json) policy_rule) ''unknown''),
         \<lparr>allowed = False, outputText = output\<rparr>)
      else if length (blockedOps json) > 0 then
        (let first = hd (blockedOps json) in
         (BlockedByNetworkPolicy
            (nullish (Option.bind (policy first) rule) ''unknown'')
            (nullish (Option.bind (policy first) policy_message) ''''),
          \<lparr>allowed = False, outputText = output\<rparr>))
      else if guidance_blocked json then
        (BlockedByGuidance
           (nullish (Option.bind (guidance json) guidance_policy_rule) ''unknown'')
           (nullish (Option.bind (guidance json) reason) ''''),
         \<lparr>allowed = False, outputText = output\<rparr>)
      else if exit_zero json then
        (let out = nullish (map_option trim (Option.bind (result json) stdout)) '''' in
         (AllowedExit0 (escape_newlines (take 150 out)),
          \<lparr>allowed = True, outputText = out\<rparr>))
      else
        (let exitCode = nullish (Option.bind (result json) exit_code) (- 1);
             err = nullish (map_option trim (Option.bind (result json) stderr)) ''''
         in (BlockedNetworkLevel exitCode
               (if take 100 err = [] then ''connection failed'' else take 100 err),
             \<lparr>allowed = False, outputText = output\<rparr>)))"

text \<open>
  \<^verbatim>\<open>runAgentsh\<close> from the read of the result file on. \<open>parse\<close> is
  \<^verbatim>\<open>JSON.parse\<close> typed by the annotation \<^verbatim>\<open>const json: ExecResponse\<close>;
  \<open>None\<close> is its SyntaxError, caught by the second \<^verbatim>\<open>catch\<close>. \<open>fs\<close> is
  the file system after the request script has run.
\<close>

definition runAgentsh ::
  "(string \<Rightarrow> ExecResponse option) \<Rightarrow> filesystem \<Rightarrow> verdict_line \<times> RunResult" where
  "runAgentsh parse fs =
     (case readTextFile fs result_path of
        None \<Rightarrow> (NoResponse, \<lparr>allowed = False, outputText = ''''\<rparr>)
      | Some output \<Rightarrow>
          (case parse (trim output) of
             None \<Rightarrow> (ParseFailed (take 200 output), \<lparr>allowed = False, outputText = output\<rparr>)
           | Some json \<Rightarrow> classify json output))"

text \<open>The verdict word each template starts with.\<close>

datatype category = ALLOWED | BLOCKED | ERROR

fun category_of :: "verdict_line \<Rightarrow> category" where
  "category_of NoResponse = ERROR"
| "category_of (BlockedByRule r) = BLOCKED"
| "category_of (BlockedByNetworkPolicy r m) = BLOCKED"
| "category_of (BlockedByGuidance r m) = BLOCKED"
| "category_of (AllowedExit0 p) = ALLOWED"
| "category_of (BlockedNetworkLevel e d) = BLOCKED"
| "category_of (ParseFailed raw) = ERROR"

text \<open>The text after \<^verbatim>\<open>ERROR: \<close> on the two error lines.\<close>

fun error_reason :: "verdict_line \<Rightarrow> string option" where
  "error_reason NoResponse = Some ''no response from API''"
| "error_reason (ParseFailed raw) = Some (''failed to parse response: '' @ raw)"
| "error_reason v = None"

text \<open>The rule identifier and the message a BLOCKED line reports.\<close>

fun ruleId :: "verdict_line \<Rightarrow> string option" where
  "ruleId (BlockedByRule r) = Some r"
| "ruleId (BlockedByNetworkPolicy r m) = Some r"
| "ruleId (BlockedByGuidance r m) = Some r"
| "ruleId v = None"

fun block_reason :: "verdict_line \<Rightarrow> string option" where
  "block_reason (BlockedByNetworkPolicy r m) = Some m"
| "block_reason (BlockedByGuidance r m) = Some m"
| "block_reason v = None"

text \<open>
  The source numbers its checks in comments (\<^verbatim>\<open>Check 1\<close> to
  \<^verbatim>\<open>Check 5\<close>); each has a verdict line of its own.
\<close>

datatype check = Check1 | Check2 | Check3 | Check4 | Check5

fun check_of :: "verdict_line \<Rightarrow> check option" where
  "check_of (BlockedByRule r) = Some Check1"
| "check_of (BlockedByNetworkPolicy r m) = Some Check2"
| "check_of (BlockedByGuidance r m) = Some Check3"
| "check_of (AllowedExit0 p) = Some Check4"
| "check_of (BlockedNetworkLevel e d) = Some Check5"
| "check_of v = None"

subsection \<open>\<^verbatim>\<open>execViaApi\<close> of the detection script\<close>

record ApiResult =
  exitCode :: int
  stdoutText :: string
  stderrText :: string
  blockedFlag :: bool
  policyRule :: string

text \<open>
  \<^verbatim>\<open>execViaApi\<close> of \<^verbatim>\<open>detect-sandbox.ts\<close> from the read of the
  result file on: two denial checks only, then the result fields are copied through.
\<close>

definition execViaApi ::
  "(string \<Rightarrow> ExecResponse option) \<Rightarrow> filesystem \<Rightarrow> ApiResult" where
  "execViaApi parse fs =
     (case readTextFile fs result_path of
        None \<Rightarrow>
          \<lparr>exitCode = - 1, stdoutText = '''', stderrText = ''no API response'',
           blockedFlag = False, policyRule = ''''\<rparr>
      | Some output \<Rightarrow>
          (case parse (trim output) of
             None \<Rightarrow>
               \<lparr>exitCode = - 1, stdoutText = '''',
                stderrText = ''parse error: '' @ take 200 output,
                blockedFlag = False, policyRule = ''''\<rparr>
           | Some json \<Rightarrow>
               if has_denial_code json then
                 \<lparr>exitCode = - 1, stdoutText = '''',
                  stderrText = nullish (Option.bind (denial_error json) message) '''',
                  blockedFlag = True,
                  policyRule = nullish (Option.bind (denial_error json) policy_rule) ''unknown''\<rparr>
               else if guidance_blocked json then
                 \<lparr>exitCode = - 1, stdoutText = '''',
                  stderrText = nullish (Option.bind (guidance json) reason) '''',
                  blockedFlag = True,
                  policyRule =
                    nullish (Option.bind (guidance json) guidance_policy_rule) ''unknown''\<rparr>
               else
                 \<lparr>exitCode = nullish (Option.bind (result json) exit_code) (- 1),
                  stdoutText = nullish (map_option trim (Option.bind (result json) stdout)) '''',
                  stderrText = nullish (map_option trim (Option.bind (result json) stderr)) '''',
                  blockedFlag = False, policyRule = ''''\<rparr>))"

subsection \<open>Sample payloads\<close>

text \<open>
  Responses used to evaluate the classifiers at concrete inputs. \<open>no_result\<close> and
  \<open>no_response\<close> are the empty objects of their interfaces.
\<close>

definition no_result :: exec_result where
  "no_result = \<lparr>exit_code = None, stdout = None, stderr = None, error = None\<rparr>"

definition no_response :: ExecResponse where
  "no_response = \<lparr>result = None, guidance = None, events = None\<rparr>"

text \<open>\<^verbatim>\<open>{"result":{"error":{"code":"E_POLICY_DENIED","policy_rule":"block-sudo"}}}\<close>\<close>

definition denied_response :: ExecResponse where
  "denied_response = no_response\<lparr>result := Some (no_result\<lparr>error :=
     Some \<lparr>code = Some ''E_POLICY_DENIED'', message = None,
           policy_rule = Some ''block-sudo''\<rparr>\<rparr>)\<rparr>"

text \<open>
  \<^verbatim>\<open>{"result":{"exit_code":0,"stdout":" ok\n"},
  "events":{"blocked_operations":[{"policy":{"rule":"deny-metadata","message":"link-local"}}]}}\<close>
\<close>

definition listed_and_exit0_response :: ExecResponse where
  "listed_and_exit0_response =
     \<lparr>result = Some (no_result\<lparr>exit_code := Some 0,
        stdout := Some [CHR '' '', CHR ''o'', CHR ''k'', CHR 0x0A]\<rparr>),
      guidance = None,
      events = Some \<lparr>blocked_operations =
        Some [\<lparr>policy = Some \<lparr>rule = Some ''deny-metadata'',
                               policy_message = Some ''link-local''\<rparr>\<rparr>],
        blocked_operations_count = None\<rparr>\<rparr>"

text \<open>\<^verbatim>\<open>{"result":{"exit_code":0,"stdout":" ok\n"}}\<close>\<close>

definition exit0_response :: ExecResponse where
  "exit0_response = no_response\<lparr>result :=
     Some (no_result\<lparr>exit_code := Some 0,
       stdout := Some [CHR '' '', CHR ''o'', CHR ''k'', CHR 0x0A]\<rparr>)\<rparr>"

text \<open>\<^verbatim>\<open>{"result":{"exit_code":7,"stderr":"refused "}}\<close>\<close>

definition exit7_response :: ExecResponse where
  "exit7_response = no_response\<lparr>result :=
     Some (no_result\<lparr>exit_code := Some 7, stderr := Some ''refused ''\<rparr>)\<rparr>"

text \<open>
  A \<^verbatim>\<open>JSON.parse\<close> that knows four texts, named by the payload they stand
  for, and rejects every other text.
\<close>

definition sample_parse :: "string \<Rightarrow> ExecResponse option" where
  "sample_parse s =
     (if s = ''DENIED'' then Some denied_response
      else if s = ''LISTED+EXIT0'' then Some listed_and_exit0_response
      else if s = ''EXIT0'' then Some exit0_response
      else if s = ''EXIT7'' then Some exit7_response
      else None)"

definition sample_fs :: "string \<Rightarrow> filesystem" where
  "sample_fs raw = Map.empty(result_path \<mapsto> raw)"

section \<open>The shell-mediated file write\<close>

text \<open>
  The second attempt of \<^verbatim>\<open>writeFileToSandbox\<close> (the version of
  \<^verbatim>\<open>setup.ts\<close> with the fallback) sends the content through the shell as
  base64. A \<^verbatim>\<open>Uint8Array\<close> is a list of 8-bit words; the binary string built
  from it has one code unit below 256 per byte, which is a \<open>char\<close>.
\<close>

type_synonym byte = "8 word"

text \<open>\<^verbatim>\<open>String.fromCharCode(byte)\<close>\<close>

definition fromCharCode :: "byte \<Rightarrow> char" where
  "fromCharCode b = char_of (unat b)"

text \<open>\<^verbatim>\<open>.reduce((acc, byte) => acc + String.fromCharCode(byte), "")\<close>\<close>

definition binary_string :: "byte list \<Rightarrow> string" where
  "binary_string bytes = foldl (\<lambda>acc byte. acc @ [fromCharCode byte]) [] bytes"

text \<open>
  \<^verbatim>\<open>btoa\<close> is the runtime's: base64 with the standard alphabet and
  \<^verbatim>\<open>=\<close> padding (RFC 4648). It throws on a code unit above 255, which a
  \<open>char\<close> cannot hold, so it is total here.
\<close>

definition base64_alphabet :: string where
  "base64_alphabet = ''ABCDEFGHIJKLMNOPQRSTUVWXYZabcdefghijklmnopqrstuvwxyz0123456789+/''"

definition b64_char :: "nat \<Rightarrow> char" where
  "b64_char n = base64_alphabet ! n"

fun btoa :: "string \<Rightarrow> string" where
  "btoa [] = []"
| "btoa [a] =
     (let x = of_char a :: nat
      in [b64_char (x div 4), b64_char ((x mod 4) * 16), CHR ''='', CHR ''=''])"
| "btoa [a, b] =
     (let x = of_char a :: nat; y = of_char b :: nat
      in [b64_char (x div 4), b64_char ((x mod 4) * 16 + y div 16),
          b64_char ((y mod 16) * 4), CHR ''=''])"
| "btoa (a # b # c # rest) =
     (let x = of_char a :: nat; y = of_char b :: nat; z = of_char c :: nat
      in [b64_char (x div 4), b64_char ((x mod 4) * 16 + y div 16),
          b64_char ((y mod 16) * 4 + z div 64), b64_char (z mod 64)] @ btoa rest)"

text \<open>
  \<^verbatim>\<open>base64 -d\<close> is the decoder of the environment's coreutils, modelled as the
  strict RFC 4648 decoder: groups of four characters, padding only in the last group,
  line feeds skipped (\<^verbatim>\<open>echo\<close> appends one), and \<open>None\<close> for any other
  input (the command exits non-zero).
\<close>

fun index_of :: "'a \<Rightarrow> 'a list \<Rightarrow> nat option" where
  "index_of x [] = None"
| "index_of x (y # ys) = (if x = y then Some 0 else map_option Suc (index_of x ys))"

definition b64_value :: "char \<Rightarrow> nat option" where
  "b64_value c = index_of c base64_alphabet"

definition group_bytes :: "nat \<Rightarrow> nat \<Rightarrow> nat \<Rightarrow> nat \<Rightarrow> byte list" where
  "group_bytes p q r s =
     [of_nat (p * 4 + q div 16), of_nat ((q mod 16) * 16 + r div 4), of_nat ((r mod 4) * 64 + s)]"

fun decode_groups :: "string \<Rightarrow> byte list option" where
  "decode_groups [] = Some []"
| "decode_groups [a, b, c, d] =
     (case (b64_value a, b64_value b) of
        (Some p, Some q) \<Rightarrow>
          if c = CHR ''='' \<and> d = CHR ''='' then Some (take 1 (group_bytes p q 0 0))
          else (case b64_value c of
                  None \<Rightarrow> None
                | Some r \<Rightarrow>
                    if d = CHR ''='' then Some (take 2 (group_bytes p q r 0))
                    else (case b64_value d of
                            None \<Rightarrow> None
                          | Some s \<Rightarrow> Some (group_bytes p q r s)))
      | _ \<Rightarrow> None)"
| "decode_groups (a # b # c # d # rest) =
     (case (b64_value a, b64_value b, b64_value c, b64_value d) of
        (Some p, Some q, Some r, Some s) \<Rightarrow>
          map_option (\<lambda>bytes. group_bytes p q r s @ bytes) (decode_groups rest)
      | _ \<Rightarrow> None)"
| "decode_groups incomplete = None"

definition base64_d :: "string \<Rightarrow> byte list option" where
  "base64_d input = decode_groups (filter (\<lambda>c. c \<noteq> CHR 0x0A) input)"

text \<open>The byte a code unit below 256 stands for.\<close>

definition byte_of_char :: "char \<Rightarrow> byte" where
  "byte_of_char c = of_nat (of_char c)"

text \<open>
  \<^verbatim>\<open>new TextEncoder().encode(content)\<close>: the content is a sequence of UTF-16
  code units; a surrogate pair is one scalar value, a lone surrogate is replaced by
  U+FFFD, and each scalar value becomes one to four UTF-8 bytes.
\<close>

type_synonym code_unit = "16 word"

definition is_high_surrogate :: "code_unit \<Rightarrow> bool" where
  "is_high_surrogate u = (0xD800 \<le> unat u \<and> unat u \<le> 0xDBFF)"

definition is_low_surrogate :: "code_unit \<Rightarrow> bool" where
  "is_low_surrogate u = (0xDC00 \<le> unat u \<and> unat u \<le> 0xDFFF)"

fun scalar_values :: "code_unit list \<Rightarrow> nat list" where
  "scalar_values [] = []"
| "scalar_values (u # rest) =
     (if is_high_surrogate u then
        (case rest of
           [] \<Rightarrow> [0xFFFD]
         | v # after \<Rightarrow>
             if is_low_surrogate v
             then (0x10000 + (unat u - 0xD800) * 0x400 + (unat v - 0xDC00)) # scalar_values after
             else 0xFFFD # scalar_values rest)
      else if is_low_surrogate u then 0xFFFD # scalar_values rest
      else unat u # scalar_values rest)"

definition utf8_bytes :: "nat \<Rightarrow> byte list" where
  "utf8_bytes cp =
     (if cp < 0x80 then [of_nat cp]
      else if cp < 0x800 then [of_nat (0xC0 + cp div 64), of_nat (0x80 + cp mod 64)]
      else if cp < 0x10000 then
        [of_nat (0xE0 + cp div 4096), of_nat (0x80 + cp div 64 mod 64), of_nat (0x80 + cp mod 64)]
      else
        [of_nat (0xF0 + cp div 262144), of_nat (0x80 + cp div 4096 mod 64),
         of_nat (0x80 + cp div 64 mod 64), of_nat (0x80 + cp mod 64)])"

definition TextEncoder_encode :: "code_unit list \<Rightarrow> byte list" where
  "TextEncoder_encode content = concat (map utf8_bytes (scalar_values content))"

text \<open>
  The files of the environment as bytes, and the sandbox handle as far as
  \<^verbatim>\<open>writeFileToSandbox\<close> looks at it: \<open>native_writeTextFile\<close> is
  \<open>None\<close> when \<^verbatim>\<open>sandbox.fs.writeTextFile\<close> is not a function.
\<close>

type_synonym byte_files = "string \<rightharpoonup> byte list"

record sandbox_files =
  native_writeTextFile :: "(string \<Rightarrow> code_unit list \<Rightarrow> byte_files \<Rightarrow> byte_files) option"
  files :: byte_files

text \<open>
  \<^verbatim>\<open>echo ${encoded} | base64 -d > ${path}\<close>; \<open>None\<close> when the
  pipeline fails, which \<^verbatim>\<open>sandbox.sh\<close> turns into an exception.
\<close>

definition sh_echo_base64_d :: "string \<Rightarrow> string \<Rightarrow> byte_files \<Rightarrow> byte_files option" where
  "sh_echo_base64_d encoded path fs =
     map_option (\<lambda>bytes. fs(path \<mapsto> bytes)) (base64_d (encoded @ [CHR 0x0A]))"

definition writeFileToSandbox ::
  "sandbox_files \<Rightarrow> string \<Rightarrow> code_unit list \<Rightarrow> sandbox_files option" where
  "writeFileToSandbox sandbox path content =
     (case native_writeTextFile sandbox of
        Some writeTextFile \<Rightarrow>
          Some (sandbox\<lparr>files := writeTextFile path content (files sandbox)\<rparr>)
      | None \<Rightarrow>
          (let encoded = btoa (binary_string (TextEncoder_encode content))
           in map_option (\<lambda>fs. sandbox\<lparr>files := fs\<rparr>)
                (sh_echo_base64_d encoded path (files sandbox))))"

text \<open>A sandbox without the native write and without files.\<close>

definition bare_sandbox :: sandbox_files where
  "bare_sandbox = \<lparr>native_writeTextFile = None, files = Map.empty\<rparr>"

section \<open>Provisioning: \<^verbatim>\<open>createAgentshSandbox\<close>\<close>

text \<open>
  \<^verbatim>\<open>createAgentshSandbox\<close> of \<^verbatim>\<open>setup.ts\<close> drives the sandbox
  through calls on its handle. Each call is an action:
  \<^item> \<open>SandboxCreate allowNet\<close>: \<^verbatim>\<open>Sandbox.create({ allowNet })\<close>
  \<^item> \<open>Sh text\<close>: an awaited \<^verbatim>\<open>sandbox.sh\<close> command, which throws on a
    non-zero exit
  \<^item> \<open>ShSudo text\<close>: the same with \<^verbatim>\<open>.sudo()\<close>
  \<^item> \<open>FsWriteTextFile path content\<close>: \<^verbatim>\<open>sandbox.fs.writeTextFile\<close>
  \<^item> \<open>DenoReadTextFile name\<close>: \<^verbatim>\<open>Deno.readTextFile\<close> of a file beside
    the module
  \<^item> \<open>EnvSet key v\<close>: \<^verbatim>\<open>sandbox.env.set\<close>
  \<^item> \<open>Spawn text\<close>: a process started and not awaited
  \<^item> \<open>Close\<close>: \<^verbatim>\<open>sandbox.close()\<close>
  Console output is left out.
\<close>

datatype action =
    SandboxCreate "string list option"
  | Sh string
  | ShSudo string
  | FsWriteTextFile string string
  | DenoReadTextFile string
  | EnvSet string string
  | Spawn string
  | Close

type_synonym trace = "action list"

text \<open>
  The environment decides the outcome of every action from the actions performed so
  far: \<open>Inl\<close> is the exception the call throws, \<open>Inr\<close> the text it returns (the
  stdout of a command, the content of a file, the id of the sandbox). A program step
  takes the trace of the actions performed so far and returns its outcome with the
  extended trace.
\<close>

type_synonym world = "trace \<Rightarrow> action \<Rightarrow> string + string"

type_synonym 'a prog = "trace \<Rightarrow> (string + 'a) \<times> trace"

text \<open>An awaited call.\<close>

definition perform :: "world \<Rightarrow> action \<Rightarrow> string prog" where
  "perform w a t = (w t a, t @ [a])"

text \<open>
  A call whose promise is not awaited (\<^verbatim>\<open>sandbox.spawn\<close>): it is recorded and
  throws nothing into its caller.
\<close>

definition detached :: "action \<Rightarrow> string prog" where
  "detached a t = (Inr '''', t @ [a])"

text \<open>One statement after another inside a \<^verbatim>\<open>try\<close> block: the first exception ends the block.\<close>

definition bind_step :: "'a prog \<Rightarrow> ('a \<Rightarrow> 'b prog) \<Rightarrow> 'b prog" where
  "bind_step m f t = (case m t of (Inl e, t') \<Rightarrow> (Inl e, t') | (Inr v, t') \<Rightarrow> f v t')"

definition succeed :: "'a \<Rightarrow> 'a prog" where
  "succeed v t = (Inr v, t)"

text \<open>
  The options interface, with the fields of all its versions. \<open>envVars\<close> is a
  \<^verbatim>\<open>Record<string, string>\<close>, read with \<^verbatim>\<open>Object.entries\<close>: a list of
  pairs in insertion order.
\<close>

record AgentshSandboxOptions =
  agentshRepo :: "string option"
  debArch :: "string option"
  workspace :: "string option"
  allowNet :: "string list option"
  envVars :: "(string \<times> string) list option"

text \<open>
  The command texts of the version in \<^verbatim>\<open>src/unnamed/part_000\<close> (l.45-157).
  Values interpolated into a command are inserted as they are. \<open>lines\<close> ends every
  line with a line feed.
\<close>

definition lines :: "string list \<Rightarrow> string" where
  "lines ls = concat (map (\<lambda>l. l @ [CHR 0x0A]) ls)"

definition apt_install_cmd :: string where
  \<open>apt_install_cmd = ''apt-get update && apt-get install -y --no-install-recommends ca-certificates curl jq libseccomp2 sudo && rm -rf /var/lib/apt/lists/*''\<close>

definition installScript :: "string \<Rightarrow> string \<Rightarrow> string" where
  \<open>installScript repo arch = butlast (lines
     [''set -eux'',
      ''LATEST_TAG=$(curl -fsSL "https://api.github.com/repos/'' @ repo @ ''/releases/latest" | jq -r '.tag_name')'',
      ''version="${LATEST_TAG#v}"'',
      ''deb="agentsh_${version}_linux_'' @ arch @ ''.deb"'',
      ''url="https://github.com/'' @ repo @ ''/releases/download/${LATEST_TAG}/${deb}"'',
      ''echo "Downloading agentsh ${LATEST_TAG}: ${url}"'',
      ''curl -fsSL -L "${url}" -o /tmp/agentsh.deb'',
      ''dpkg -i /tmp/agentsh.deb'',
      ''rm -f /tmp/agentsh.deb'',
      ''agentsh --version''])\<close>

definition mkdir_cmd :: string where
  "mkdir_cmd = ''mkdir -p /etc/agentsh/policies /var/lib/agentsh/quarantine /var/lib/agentsh/sessions /var/log/agentsh && chmod 755 /etc/agentsh /etc/agentsh/policies && chmod 755 /var/lib/agentsh /var/lib/agentsh/quarantine /var/lib/agentsh/sessions && chmod 755 /var/log/agentsh''"

definition chown_cmd :: string where
  "chown_cmd = ''chown -R user:user /var/lib/agentsh /var/log/agentsh /etc/agentsh''"

definition sudoers_line :: string where
  "sudoers_line = ''user ALL=(ALL) NOPASSWD: /usr/bin/agentsh''"

definition sudoers_cmd :: string where
  \<open>sudoers_cmd = ''echo "'' @ sudoers_line @ ''" >> /etc/sudoers''\<close>

definition wait_cmd :: string where
  \<open>wait_cmd = ''for i in $(seq 1 30); do if curl -sf http://127.0.0.1:18080/health > /dev/null 2>&1; then echo "agentsh server ready"; exit 0; fi; sleep 0.5; done; echo "agentsh server failed to start within 15s" >&2; exit 1''\<close>

definition shim_args :: string where
  "shim_args = ''agentsh shim install-shell --root / --shim /usr/bin/agentsh-shell-shim --bash --i-understand-this-modifies-the-host''"

text \<open>The body of the \<^verbatim>\<open>try\<close> block, steps 2 to 8 of the source's numbering.\<close>

definition bootstrap :: "world \<Rightarrow> AgentshSandboxOptions \<Rightarrow> unit prog" where
  "bootstrap w opts =
     (let repo = nullish (agentshRepo opts) ''erans/agentsh'';
          arch = nullish (debArch opts) ''amd64''
      in
      bind_step (perform w (Sh apt_install_cmd)) (\<lambda>_.
      bind_step (perform w (Sh (installScript repo arch))) (\<lambda>_.
      bind_step (perform w (Sh mkdir_cmd)) (\<lambda>_.
      bind_step (perform w (DenoReadTextFile ''./config.yaml'')) (\<lambda>configYaml.
      bind_step (perform w (DenoReadTextFile ''./default.yaml'')) (\<lambda>policyYaml.
      bind_step (perform w (FsWriteTextFile ''/etc/agentsh/config.yaml'' configYaml)) (\<lambda>_.
      bind_step (perform w (FsWriteTextFile ''/etc/agentsh/policies/default.yaml'' policyYaml)) (\<lambda>_.
      bind_step (perform w (Sh chown_cmd)) (\<lambda>_.
      bind_step (perform w (Sh sudoers_cmd)) (\<lambda>_.
      bind_step (perform w (EnvSet ''AGENTSH_SERVER'' ''http://127.0.0.1:18080'')) (\<lambda>_.
      bind_step (detached (Spawn ''agentsh server'')) (\<lambda>_.
      bind_step (perform w (Sh wait_cmd)) (\<lambda>_.
      bind_step (perform w (Sh (''sudo '' @ shim_args))) (\<lambda>_.
      succeed ()))))))))))))))"

text \<open>
  \<^verbatim>\<open>Sandbox.create\<close> stands before the \<^verbatim>\<open>try\<close> block, so its exception
  leaves nothing to close. The \<^verbatim>\<open>catch\<close> block calls
  \<^verbatim>\<open>sandbox.close()\<close> inside a \<^verbatim>\<open>try\<close> of its own with an empty
  \<^verbatim>\<open>catch\<close>, then rethrows the error it caught.
\<close>

definition with_cleanup :: "world \<Rightarrow> string list option \<Rightarrow> unit prog \<Rightarrow> (string + string) \<times> trace" where
  "with_cleanup w net body =
     (case perform w (SandboxCreate net) [] of
        (Inl e, t) \<Rightarrow> (Inl e, t)
      | (Inr sandbox, t) \<Rightarrow>
          (case body t of
             (Inr u, t') \<Rightarrow> (Inr sandbox, t')
           | (Inl err, t') \<Rightarrow> (Inl err, snd (perform w Close t'))))"

definition createAgentshSandbox ::
  "world \<Rightarrow> AgentshSandboxOptions \<Rightarrow> (string + string) \<times> trace" where
  "createAgentshSandbox w opts = with_cleanup w (allowNet opts) (bootstrap w opts)"

subsection \<open>The version that runs privileged steps with \<^verbatim>\<open>.sudo()\<close>\<close>

text \<open>
  The version of \<^verbatim>\<open>setup.ts\<close> at \<^verbatim>\<open>src/test-sandbox.ts\<close> l.886-1017:
  it asks the sandbox for its user and group, runs the privileged steps with
  \<^verbatim>\<open>.sudo()\<close> and seeds the caller's environment variables before the agent
  starts. Its \<^verbatim>\<open>catch\<close> block is the same.
\<close>

definition installScript_sudo :: "string \<Rightarrow> string \<Rightarrow> string" where
  \<open>installScript_sudo repo arch = lines
     [''#!/bin/bash'',
      ''set -eux'',
      ''LATEST_TAG=$(curl -fsSL "https://api.github.com/repos/'' @ repo @ ''/releases/latest" | jq -r '.tag_name')'',
      ''version="${LATEST_TAG#v}"'',
      ''deb="agentsh_${version}_linux_'' @ arch @ ''.deb"'',
      ''url="https://github.com/'' @ repo @ ''/releases/download/${LATEST_TAG}/${deb}"'',
      ''echo "Downloading agentsh ${LATEST_TAG}: ${url}"'',
      ''curl -fsSL -L "${url}" -o /tmp/agentsh.deb'',
      ''sudo dpkg -i /tmp/agentsh.deb'',
      ''rm -f /tmp/agentsh.deb'',
      ''agentsh --version'']\<close>

definition state_dirs :: string where
  "state_dirs = ''/etc/agentsh/policies /var/lib/agentsh/quarantine /var/lib/agentsh/sessions /var/log/agentsh''"

definition chmod_cmd :: string where
  "chmod_cmd = ''chmod 755 /etc/agentsh /etc/agentsh/policies /var/lib/agentsh /var/lib/agentsh/quarantine /var/lib/agentsh/sessions /var/log/agentsh''"

definition chown_cmd_sudo :: "string \<Rightarrow> string \<Rightarrow> string \<Rightarrow> string" where
  "chown_cmd_sudo sbUser sbGroup ws =
     ''chown -R '' @ sbUser @ '':'' @ sbGroup
       @ '' /var/lib/agentsh /var/log/agentsh /etc/agentsh '' @ ws"

definition sudoers_line_sudo :: "string \<Rightarrow> string" where
  "sudoers_line_sudo sbUser = sbUser @ '' ALL=(ALL) NOPASSWD: ALL''"

definition sudoers_cmd_sudo :: "string \<Rightarrow> string" where
  \<open>sudoers_cmd_sudo sbUser =
     ''echo "'' @ sudoers_line_sudo sbUser @ ''" | sudo tee -a /etc/sudoers > /dev/null''\<close>

fun set_env_vars :: "world \<Rightarrow> (string \<times> string) list \<Rightarrow> unit prog" where
  "set_env_vars w [] = succeed ()"
| "set_env_vars w ((key, v) # entries) =
     bind_step (perform w (EnvSet key v)) (\<lambda>_. set_env_vars w entries)"

definition bootstrap_sudo :: "world \<Rightarrow> AgentshSandboxOptions \<Rightarrow> unit prog" where
  "bootstrap_sudo w opts =
     (let repo = nullish (agentshRepo opts) ''erans/agentsh'';
          arch = nullish (debArch opts) ''amd64'';
          ws = nullish (workspace opts) ''/app''
      in
      bind_step (perform w (Sh ''whoami'')) (\<lambda>whoami.
      bind_step (perform w (Sh ''id -gn'')) (\<lambda>id_gn.
      let sbUser = trim whoami; sbGroup = trim id_gn in
      bind_step (perform w (ShSudo ''mkdir -p /var/lib/apt/lists/partial'')) (\<lambda>_.
      bind_step (perform w (ShSudo ''apt-get -o Acquire::Check-Valid-Until=false update'')) (\<lambda>_.
      bind_step (perform w (ShSudo ''apt-get install -y --no-install-recommends ca-certificates curl jq libseccomp2 sudo'')) (\<lambda>_.
      bind_step (perform w (ShSudo ''rm -rf /var/lib/apt/lists/*'')) (\<lambda>_.
      bind_step (perform w (FsWriteTextFile ''/tmp/install-agentsh.sh'' (installScript_sudo repo arch))) (\<lambda>_.
      bind_step (perform w (Sh ''chmod +x /tmp/install-agentsh.sh'')) (\<lambda>_.
      bind_step (perform w (Sh ''/tmp/install-agentsh.sh'')) (\<lambda>_.
      bind_step (perform w (ShSudo (''mkdir -p '' @ state_dirs @ '' '' @ ws))) (\<lambda>_.
      bind_step (perform w (ShSudo chmod_cmd)) (\<lambda>_.
      bind_step (perform w (ShSudo (chown_cmd_sudo sbUser sbGroup ws))) (\<lambda>_.
      bind_step (perform w (Sh (sudoers_cmd_sudo sbUser))) (\<lambda>_.
      bind_step (perform w (DenoReadTextFile ''./config.yaml'')) (\<lambda>configYaml.
      bind_step (perform w (DenoReadTextFile ''./default.yaml'')) (\<lambda>policyYaml.
      bind_step (perform w (FsWriteTextFile ''/etc/agentsh/config.yaml'' configYaml)) (\<lambda>_.
      bind_step (perform w (FsWriteTextFile ''/etc/agentsh/policies/default.yaml'' policyYaml)) (\<lambda>_.
      bind_step (perform w (EnvSet ''AGENTSH_SERVER'' ''http://127.0.0.1:18080'')) (\<lambda>_.
      bind_step (set_env_vars w (nullish (envVars opts) [])) (\<lambda>_.
      bind_step (detached (Spawn ''sudo agentsh server'')) (\<lambda>_.
      bind_step (perform w (Sh wait_cmd)) (\<lambda>_.
      bind_step (perform w (ShSudo shim_args)) (\<lambda>_.
      succeed ())))))))))))))))))))))))"

definition createAgentshSandbox_sudo ::
  "world \<Rightarrow> AgentshSandboxOptions \<Rightarrow> (string + string) \<times> trace" where
  "createAgentshSandbox_sudo w opts = with_cleanup w (allowNet opts) (bootstrap_sudo w opts)"

subsection \<open>What a program step does to the trace\<close>


subsection \<open>Sample environments\<close>

text \<open>
  \<^verbatim>\<open>createAgentshSandbox()\<close> without options; an environment in which every
  shell command and \<^verbatim>\<open>close\<close> itself fail; and one in which everything
  succeeds and every command prints \<^verbatim>\<open>app\<close>.
\<close>

definition default_options :: AgentshSandboxOptions where
  "default_options =
     \<lparr>agentshRepo = None, debArch = None, workspace = None, allowNet = None, envVars = None\<rparr>"


definition ok_world :: world where
  "ok_world t a =
     (case a of
        SandboxCreate net \<Rightarrow> Inr ''sbx-1''
      | Sh c \<Rightarrow> Inr (''app'' @ [CHR 0x0A])
      | DenoReadTextFile name \<Rightarrow> Inr ''version: 1''
      | _ \<Rightarrow> Inr '''')"

text \<open>
  A sudoers user specification reads \<^verbatim>\<open>user host=(runas) TAG: commands\<close>;
  the commands it grants are the text after the last colon.
\<close>

definition granted_commands :: "string \<Rightarrow> string" where
  "granted_commands line = trim (rev (takeWhile (\<lambda>c. c \<noteq> CHR '':'') (rev line)))"

section \<open>The readiness wait\<close>






section \<open>The test runner of \<^verbatim>\<open>test-sandbox.ts\<close>\<close>

text \<open>
  \<^verbatim>\<open>test-sandbox.ts\<close> keeps two module-level counters, which
  \<^verbatim>\<open>pass\<close> and \<^verbatim>\<open>fail\<close> increment.
\<close>

record counters =
  passed :: nat
  failed :: nat




text \<open>
  What test 7 learns from \<^verbatim>\<open>JSON.parse(stdout)\<close>: the parse throws, or the
  value has no string \<^verbatim>\<open>id\<close>, or it has one.
\<close>

datatype id_lookup = SyntaxError | NoStringId | StringId string














section \<open>Properties of the classifiers\<close>

lemma runAgentsh_parsed:
  "readTextFile fs result_path = Some raw \<Longrightarrow> parse (trim raw) = Some json
   \<Longrightarrow> runAgentsh parse fs = classify json raw"
  by (simp add: runAgentsh_def)

lemma read_sample_fs: "readTextFile (sample_fs raw) result_path = Some raw"
  by (simp add: readTextFile_def sample_fs_def)

lemma trim_samples:
  "trim '' LISTED+EXIT0 '' = ''LISTED+EXIT0''"
  "trim ''DENIED'' = ''DENIED''"
  "trim ''EXIT0'' = ''EXIT0''"
  "trim ''EXIT7'' = ''EXIT7''"
  "trim ''<html>'' = ''<html>''"
  "trim [CHR '' '', CHR ''o'', CHR ''k'', CHR 0x0A] = ''ok''"
  "trim ''refused '' = ''refused''"
  by (simp_all add: trim_def is_space_def)

lemma sample_parse_simps:
  "sample_parse ''LISTED+EXIT0'' = Some listed_and_exit0_response"
  "sample_parse ''DENIED'' = Some denied_response"
  "sample_parse ''EXIT0'' = Some exit0_response"
  "sample_parse ''EXIT7'' = Some exit7_response"
  "sample_parse ''<html>'' = None"
  by (simp_all add: sample_parse_def)

lemma sample_shapes:
  "has_denial_code denied_response"
  "\<not> has_denial_code listed_and_exit0_response"
  "\<not> has_denial_code exit0_response"
  "\<not> has_denial_code exit7_response"
  "blockedOps listed_and_exit0_response =
     [\<lparr>policy = Some \<lparr>rule = Some ''deny-metadata'', policy_message = Some ''link-local''\<rparr>\<rparr>]"
  "blockedOps exit0_response = []"
  "blockedOps exit7_response = []"
  "\<not> guidance_blocked listed_and_exit0_response"
  "\<not> guidance_blocked exit0_response"
  "\<not> guidance_blocked exit7_response"
  "exit_zero listed_and_exit0_response"
  "exit_zero exit0_response"
  "\<not> exit_zero exit7_response"
  by (simp_all add: has_denial_code_def denial_error_def blockedOps_def guidance_blocked_def
      exit_zero_def nullish_def denied_response_def listed_and_exit0_response_def
      exit0_response_def exit7_response_def no_response_def no_result_def)

text \<open>
  Claim C1. On every response that was read and parsed, \<^verbatim>\<open>runAgentsh\<close>
  applies its checks in strict priority order and the first match wins: the explicit
  denial code, then a non-empty blocked-operations list, then a guidance-level block,
  then success on exit code 0. Any of the three denial shapes gives BLOCKED, a clean
  success gives ALLOWED, and a response with both a non-empty blocked-operations list and
  exit code 0 is BLOCKED, not ALLOWED.
\<close>

theorem classifier_priority_order:
  assumes "readTextFile fs result_path = Some raw" and "parse (trim raw) = Some json"
  shows "check_of (fst (runAgentsh parse fs)) =
           Some (if has_denial_code json then Check1
                 else if blockedOps json \<noteq> [] then Check2
                 else if guidance_blocked json then Check3
                 else if exit_zero json then Check4 else Check5)
         \<and> (has_denial_code json \<or> blockedOps json \<noteq> [] \<or> guidance_blocked json \<longrightarrow>
              category_of (fst (runAgentsh parse fs)) = BLOCKED)
         \<and> (\<not> has_denial_code json \<and> blockedOps json = [] \<and> \<not> guidance_blocked json
              \<and> exit_zero json \<longrightarrow>
              category_of (fst (runAgentsh parse fs)) = ALLOWED)
         \<and> (blockedOps json \<noteq> [] \<and> exit_zero json \<longrightarrow>
              category_of (fst (runAgentsh parse fs)) = BLOCKED
              \<and> category_of (fst (runAgentsh parse fs)) \<noteq> ALLOWED
              \<and> \<not> allowed (snd (runAgentsh parse fs)))"
proof -
  have eq: "runAgentsh parse fs = classify json raw"
    using assms by (rule runAgentsh_parsed)
  show ?thesis
    unfolding eq by (simp add: classify_def Let_def)
qed

theorem classifier_priority_order_witness:
  "readTextFile (sample_fs '' LISTED+EXIT0 '') result_path = Some '' LISTED+EXIT0 ''
   \<and> sample_parse (trim '' LISTED+EXIT0 '') = Some listed_and_exit0_response
   \<and> blockedOps listed_and_exit0_response \<noteq> [] \<and> exit_zero listed_and_exit0_response
   \<and> check_of (fst (runAgentsh sample_parse (sample_fs '' LISTED+EXIT0 ''))) = Some Check2
   \<and> category_of (fst (runAgentsh sample_parse (sample_fs '' LISTED+EXIT0 ''))) = BLOCKED
   \<and> \<not> allowed (snd (runAgentsh sample_parse (sample_fs '' LISTED+EXIT0 '')))
   \<and> readTextFile (sample_fs ''EXIT0'') result_path = Some ''EXIT0''
   \<and> sample_parse (trim ''EXIT0'') = Some exit0_response
   \<and> \<not> has_denial_code exit0_response \<and> blockedOps exit0_response = []
   \<and> \<not> guidance_blocked exit0_response \<and> exit_zero exit0_response
   \<and> category_of (fst (runAgentsh sample_parse (sample_fs ''EXIT0''))) = ALLOWED"
proof -
  have r1: "readTextFile (sample_fs '' LISTED+EXIT0 '') result_path = Some '' LISTED+EXIT0 ''"
    by (rule read_sample_fs)
  have p1: "sample_parse (trim '' LISTED+EXIT0 '') = Some listed_and_exit0_response"
    by (simp add: trim_samples sample_parse_simps)
  have r2: "readTextFile (sample_fs ''EXIT0'') result_path = Some ''EXIT0''"
    by (rule read_sample_fs)
  have p2: "sample_parse (trim ''EXIT0'') = Some exit0_response"
    by (simp add: trim_samples sample_parse_simps)
  show ?thesis
    using classifier_priority_order
        [of "sample_fs '' LISTED+EXIT0 ''" "'' LISTED+EXIT0 ''" sample_parse
            listed_and_exit0_response]
      classifier_priority_order [of "sample_fs ''EXIT0''" "''EXIT0''" sample_parse exit0_response]
      r1 p1 r2 p2
    by (simp add: sample_shapes)
qed

text \<open>
  Claim C3. When no result file was produced, the attempt is reported as ERROR with the
  reason \<^verbatim>\<open>no response from API\<close> and an empty output, and never as a parse
  failure; a file that is present but does not parse is reported as ERROR with the
  reason \<^verbatim>\<open>failed to parse response: \<close> followed by the first 200 code units
  of the raw text. The no-response line appears exactly when the file is missing, the
  parse-failure line exactly when a file was read and did not parse.
  \<^verbatim>\<open>execViaApi\<close> keeps the two cases apart in the same way, with the
  reasons \<^verbatim>\<open>no API response\<close> and \<^verbatim>\<open>parse error: \<close> followed by the
  first 200 code units.
\<close>

theorem transport_failure_is_not_parse_failure:
  "(readTextFile fs result_path = None \<longrightarrow>
      runAgentsh parse fs = (NoResponse, \<lparr>allowed = False, outputText = ''''\<rparr>)
      \<and> category_of (fst (runAgentsh parse fs)) = ERROR
      \<and> error_reason (fst (runAgentsh parse fs)) = Some ''no response from API'')
   \<and> (\<forall>raw. readTextFile fs result_path = Some raw \<and> parse (trim raw) = None \<longrightarrow>
      runAgentsh parse fs =
        (ParseFailed (take 200 raw), \<lparr>allowed = False, outputText = raw\<rparr>)
      \<and> category_of (fst (runAgentsh parse fs)) = ERROR
      \<and> error_reason (fst (runAgentsh parse fs))
          = Some (''failed to parse response: '' @ take 200 raw))
   \<and> (fst (runAgentsh parse fs) = NoResponse \<longleftrightarrow> readTextFile fs result_path = None)
   \<and> ((\<exists>shown. fst (runAgentsh parse fs) = ParseFailed shown) \<longleftrightarrow>
        (\<exists>raw. readTextFile fs result_path = Some raw \<and> parse (trim raw) = None))
   \<and> (readTextFile fs result_path = None \<longrightarrow>
        execViaApi parse fs =
          \<lparr>exitCode = - 1, stdoutText = '''', stderrText = ''no API response'',
           blockedFlag = False, policyRule = ''''\<rparr>)
   \<and> (\<forall>raw. readTextFile fs result_path = Some raw \<and> parse (trim raw) = None \<longrightarrow>
        execViaApi parse fs =
          \<lparr>exitCode = - 1, stdoutText = '''',
           stderrText = ''parse error: '' @ take 200 raw,
           blockedFlag = False, policyRule = ''''\<rparr>)"
  by (auto simp add: runAgentsh_def execViaApi_def classify_def Let_def split: option.splits)

theorem transport_failure_is_not_parse_failure_witness:
  "readTextFile Map.empty result_path = None
   \<and> runAgentsh sample_parse Map.empty = (NoResponse, \<lparr>allowed = False, outputText = ''''\<rparr>)
   \<and> readTextFile (sample_fs ''<html>'') result_path = Some ''<html>''
   \<and> sample_parse (trim ''<html>'') = None
   \<and> runAgentsh sample_parse (sample_fs ''<html>'')
       = (ParseFailed ''<html>'', \<lparr>allowed = False, outputText = ''<html>''\<rparr>)
   \<and> fst (runAgentsh sample_parse (sample_fs ''<html>'')) \<noteq> NoResponse"
proof -
  have r0: "readTextFile Map.empty result_path = None"
    by (simp add: readTextFile_def)
  have r1: "readTextFile (sample_fs ''<html>'') result_path = Some ''<html>''"
    by (rule read_sample_fs)
  have p1: "sample_parse (trim ''<html>'') = None"
    by (simp add: trim_samples sample_parse_simps)
  show ?thesis
    using transport_failure_is_not_parse_failure [of Map.empty sample_parse]
      transport_failure_is_not_parse_failure [of "sample_fs ''<html>''" sample_parse] r0 r1 p1
    by simp
qed

text \<open>
  Claim C2, as the spec states it, fails: a response with none of the three denial shapes
  and a non-zero exit code is not reported as ERROR. \<^verbatim>\<open>runAgentsh\<close> reports
  it as BLOCKED (network-level), here for exit code 7.
\<close>

theorem nonzero_exit_is_reported_blocked:
  "\<not> has_denial_code exit7_response \<and> blockedOps exit7_response = []
   \<and> \<not> guidance_blocked exit7_response \<and> \<not> exit_zero exit7_response
   \<and> runAgentsh sample_parse (sample_fs ''EXIT7'')
       = (BlockedNetworkLevel 7 ''refused'', \<lparr>allowed = False, outputText = ''EXIT7''\<rparr>)
   \<and> category_of (fst (runAgentsh sample_parse (sample_fs ''EXIT7''))) = BLOCKED
   \<and> category_of (fst (runAgentsh sample_parse (sample_fs ''EXIT7''))) \<noteq> ERROR"
proof -
  have eq: "runAgentsh sample_parse (sample_fs ''EXIT7'') = classify exit7_response ''EXIT7''"
    by (rule runAgentsh_parsed) (simp_all add: read_sample_fs trim_samples sample_parse_simps)
  have fields: "Option.bind (result exit7_response) exit_code = Some 7"
    "Option.bind (result exit7_response) stderr = Some ''refused ''"
    by (simp_all add: exit7_response_def no_response_def no_result_def)
  have "classify exit7_response ''EXIT7''
          = (BlockedNetworkLevel 7 ''refused'', \<lparr>allowed = False, outputText = ''EXIT7''\<rparr>)"
    by (simp add: classify_def sample_shapes Let_def fields trim_samples nullish_def)
  then show ?thesis
    by (simp add: eq sample_shapes)
qed

text \<open>
  Claim C2, amended. For a response that was read and parsed and has none of the three
  denial shapes, the outcome is ALLOWED (and \<^verbatim>\<open>allowed\<close> is true) if and only
  if the result's exit code is exactly 0; the returned output is then the trimmed stdout,
  or the empty string when stdout is absent (stderr is not part of the result). Every
  other such response is reported as BLOCKED at network level with the exit code (or -1
  when absent), never as ALLOWED, and the raw text is returned.
\<close>

theorem non_denial_outcome:
  assumes "readTextFile fs result_path = Some raw" and "parse (trim raw) = Some json"
    and "\<not> has_denial_code json" and "blockedOps json = []" and "\<not> guidance_blocked json"
  shows "(allowed (snd (runAgentsh parse fs)) \<longleftrightarrow> exit_zero json)
     \<and> (category_of (fst (runAgentsh parse fs)) = ALLOWED \<longleftrightarrow> exit_zero json)
     \<and> (exit_zero json \<longrightarrow>
          outputText (snd (runAgentsh parse fs))
            = nullish (map_option trim (Option.bind (result json) stdout)) '''')
     \<and> (\<not> exit_zero json \<longrightarrow>
          category_of (fst (runAgentsh parse fs)) = BLOCKED
          \<and> (\<exists>detail. fst (runAgentsh parse fs)
                = BlockedNetworkLevel (nullish (Option.bind (result json) exit_code) (- 1)) detail)
          \<and> outputText (snd (runAgentsh parse fs)) = raw)"
proof -
  have eq: "runAgentsh parse fs = classify json raw"
    using assms(1,2) by (rule runAgentsh_parsed)
  show ?thesis
    unfolding eq using assms(3-5) by (simp add: classify_def Let_def)
qed

theorem non_denial_outcome_witness:
  "readTextFile (sample_fs ''EXIT0'') result_path = Some ''EXIT0''
   \<and> sample_parse (trim ''EXIT0'') = Some exit0_response
   \<and> \<not> has_denial_code exit0_response \<and> blockedOps exit0_response = []
   \<and> \<not> guidance_blocked exit0_response \<and> exit_zero exit0_response
   \<and> allowed (snd (runAgentsh sample_parse (sample_fs ''EXIT0'')))
   \<and> outputText (snd (runAgentsh sample_parse (sample_fs ''EXIT0''))) = ''ok''
   \<and> readTextFile (sample_fs ''EXIT7'') result_path = Some ''EXIT7''
   \<and> sample_parse (trim ''EXIT7'') = Some exit7_response
   \<and> \<not> has_denial_code exit7_response \<and> blockedOps exit7_response = []
   \<and> \<not> guidance_blocked exit7_response \<and> \<not> exit_zero exit7_response
   \<and> \<not> allowed (snd (runAgentsh sample_parse (sample_fs ''EXIT7'')))
   \<and> category_of (fst (runAgentsh sample_parse (sample_fs ''EXIT7''))) = BLOCKED
   \<and> outputText (snd (runAgentsh sample_parse (sample_fs ''EXIT7''))) = ''EXIT7''"
proof -
  have r1: "readTextFile (sample_fs ''EXIT0'') result_path = Some ''EXIT0''"
    and r2: "readTextFile (sample_fs ''EXIT7'') result_path = Some ''EXIT7''"
    by (rule read_sample_fs)+
  have p1: "sample_parse (trim ''EXIT0'') = Some exit0_response"
    and p2: "sample_parse (trim ''EXIT7'') = Some exit7_response"
    by (simp_all add: trim_samples sample_parse_simps)
  have out: "nullish (map_option trim (Option.bind (result exit0_response) stdout)) '''' = ''ok''"
    by (simp add: exit0_response_def no_response_def no_result_def nullish_def trim_samples)
  show ?thesis
    using non_denial_outcome [of "sample_fs ''EXIT0''" "''EXIT0''" sample_parse exit0_response]
      non_denial_outcome [of "sample_fs ''EXIT7''" "''EXIT7''" sample_parse exit7_response]
      r1 r2 p1 p2 out
    by (simp add: sample_shapes)
qed

text \<open>
  Claim C4. When the denial code decides, the reported rule identifier is the error
  object's \<^verbatim>\<open>policy_rule\<close>, or \<^verbatim>\<open>unknown\<close> when it is absent. When
  the blocked-operations list decides, rule identifier and message are those of the first
  record's policy, with \<^verbatim>\<open>unknown\<close> and the empty string for absent fields.
\<close>

theorem blocked_rule_identifier:
  assumes "readTextFile fs result_path = Some raw" and "parse (trim raw) = Some json"
  shows "(has_denial_code json \<longrightarrow>
            ruleId (fst (runAgentsh parse fs))
              = Some (case Option.bind (denial_error json) policy_rule of
                        Some r \<Rightarrow> r | None \<Rightarrow> ''unknown''))
       \<and> (\<forall>first others. \<not> has_denial_code json \<and> blockedOps json = first # others \<longrightarrow>
            ruleId (fst (runAgentsh parse fs))
              = Some (case Option.bind (policy first) rule of
                        Some r \<Rightarrow> r | None \<Rightarrow> ''unknown'')
            \<and> block_reason (fst (runAgentsh parse fs))
              = Some (case Option.bind (policy first) policy_message of
                        Some m \<Rightarrow> m | None \<Rightarrow> ''''))"
proof -
  have eq: "runAgentsh parse fs = classify json raw"
    using assms by (rule runAgentsh_parsed)
  show ?thesis
    unfolding eq by (simp add: classify_def Let_def nullish_def)
qed

theorem blocked_rule_identifier_witness:
  "readTextFile (sample_fs ''DENIED'') result_path = Some ''DENIED''
   \<and> sample_parse (trim ''DENIED'') = Some denied_response
   \<and> has_denial_code denied_response
   \<and> ruleId (fst (runAgentsh sample_parse (sample_fs ''DENIED''))) = Some ''block-sudo''
   \<and> readTextFile (sample_fs '' LISTED+EXIT0 '') result_path = Some '' LISTED+EXIT0 ''
   \<and> sample_parse (trim '' LISTED+EXIT0 '') = Some listed_and_exit0_response
   \<and> \<not> has_denial_code listed_and_exit0_response
   \<and> blockedOps listed_and_exit0_response =
       [\<lparr>policy = Some \<lparr>rule = Some ''deny-metadata'', policy_message = Some ''link-local''\<rparr>\<rparr>]
   \<and> ruleId (fst (runAgentsh sample_parse (sample_fs '' LISTED+EXIT0 ''))) = Some ''deny-metadata''
   \<and> block_reason (fst (runAgentsh sample_parse (sample_fs '' LISTED+EXIT0 '')))
       = Some ''link-local''"
proof -
  have r1: "readTextFile (sample_fs ''DENIED'') result_path = Some ''DENIED''"
    and r2: "readTextFile (sample_fs '' LISTED+EXIT0 '') result_path = Some '' LISTED+EXIT0 ''"
    by (rule read_sample_fs)+
  have p1: "sample_parse (trim ''DENIED'') = Some denied_response"
    and p2: "sample_parse (trim '' LISTED+EXIT0 '') = Some listed_and_exit0_response"
    by (simp_all add: trim_samples sample_parse_simps)
  have rule1: "Option.bind (denial_error denied_response) policy_rule = Some ''block-sudo''"
    by (simp add: denial_error_def denied_response_def no_response_def no_result_def)
  show ?thesis
    using blocked_rule_identifier [of "sample_fs ''DENIED''" "''DENIED''" sample_parse denied_response]
      blocked_rule_identifier [of "sample_fs '' LISTED+EXIT0 ''" "'' LISTED+EXIT0 ''" sample_parse
        listed_and_exit0_response]
      r1 r2 p1 p2 rule1
    by (simp add: sample_shapes)
qed

text \<open>
  Claim C9. \<^verbatim>\<open>execViaApi\<close> returns \<^verbatim>\<open>blocked = true\<close> if and only
  if the response was read and parsed and carries the denial code
  \<^verbatim>\<open>E_POLICY_DENIED\<close> or a guidance object with \<^verbatim>\<open>blocked\<close> true or
  \<^verbatim>\<open>status\<close> equal to \<^verbatim>\<open>blocked\<close>. A response whose only denial signal
  is a non-empty \<^verbatim>\<open>events.blocked_operations\<close> list gives
  \<^verbatim>\<open>blocked = false\<close>, although \<^verbatim>\<open>runAgentsh\<close> reports the same
  response as BLOCKED.
\<close>

theorem execViaApi_blocked_iff:
  "(blockedFlag (execViaApi parse fs) \<longleftrightarrow>
      (\<exists>raw json. readTextFile fs result_path = Some raw \<and> parse (trim raw) = Some json
         \<and> (has_denial_code json \<or> guidance_blocked json)))
   \<and> (\<forall>raw json. readTextFile fs result_path = Some raw \<and> parse (trim raw) = Some json
         \<and> \<not> has_denial_code json \<and> \<not> guidance_blocked json \<and> blockedOps json \<noteq> []
       \<longrightarrow> \<not> blockedFlag (execViaApi parse fs)
           \<and> category_of (fst (runAgentsh parse fs)) = BLOCKED)"
  by (auto simp add: execViaApi_def runAgentsh_def classify_def Let_def split: option.splits)

theorem execViaApi_blocked_iff_witness:
  "readTextFile (sample_fs '' LISTED+EXIT0 '') result_path = Some '' LISTED+EXIT0 ''
   \<and> sample_parse (trim '' LISTED+EXIT0 '') = Some listed_and_exit0_response
   \<and> \<not> has_denial_code listed_and_exit0_response
   \<and> \<not> guidance_blocked listed_and_exit0_response
   \<and> blockedOps listed_and_exit0_response \<noteq> []
   \<and> \<not> blockedFlag (execViaApi sample_parse (sample_fs '' LISTED+EXIT0 ''))
   \<and> category_of (fst (runAgentsh sample_parse (sample_fs '' LISTED+EXIT0 ''))) = BLOCKED"
proof -
  have r2: "readTextFile (sample_fs '' LISTED+EXIT0 '') result_path = Some '' LISTED+EXIT0 ''"
    by (rule read_sample_fs)
  have p2: "sample_parse (trim '' LISTED+EXIT0 '') = Some listed_and_exit0_response"
    by (simp add: trim_samples sample_parse_simps)
  show ?thesis
    using execViaApi_blocked_iff [of sample_parse "sample_fs '' LISTED+EXIT0 ''"] r2 p2
    by (simp add: sample_shapes)
qed

section \<open>Properties of the shell-mediated file write\<close>

lemma index_of_nth: "distinct xs \<Longrightarrow> n < length xs \<Longrightarrow> index_of (xs ! n) xs = Some n"
proof (induction xs arbitrary: n)
  case Nil
  then show ?case by simp
next
  case (Cons y ys)
  show ?case
  proof (cases n)
    case 0
    then show ?thesis by simp
  next
    case (Suc m)
    with Cons.prems have "ys ! m \<noteq> y" "distinct ys" "m < length ys" by auto
    with Cons.IH [of m] Suc show ?thesis by simp
  qed
qed

lemma alphabet_distinct: "distinct base64_alphabet"
  by (simp add: base64_alphabet_def)

lemma alphabet_length: "length base64_alphabet = 64"
  by (simp add: base64_alphabet_def)

lemma b64_value_char: "n < 64 \<Longrightarrow> b64_value (b64_char n) = Some n"
  by (simp add: b64_value_def b64_char_def index_of_nth alphabet_distinct alphabet_length)

lemma b64_char_in: "n < 64 \<Longrightarrow> b64_char n \<in> set base64_alphabet"
  by (simp add: b64_char_def alphabet_length)

lemma b64_char_not_pad: "n < 64 \<Longrightarrow> b64_char n \<noteq> CHR ''=''"
  using b64_char_in [of n] by (auto simp add: base64_alphabet_def)

lemma b64_char_not_newline: "n < 64 \<Longrightarrow> b64_char n \<noteq> CHR 0x0A"
  using b64_char_in [of n] by (auto simp add: base64_alphabet_def)

lemma binary_string_map: "binary_string bytes = map fromCharCode bytes"
proof -
  have "foldl (\<lambda>acc byte. acc @ [fromCharCode byte]) pre bytes = pre @ map fromCharCode bytes"
    for pre
    by (induction bytes arbitrary: pre) simp_all
  then show ?thesis by (simp add: binary_string_def)
qed

lemma of_char_fromCharCode: "of_char (fromCharCode b) = unat b"
proof -
  have "unat b < 2 ^ 8" using unsigned_less [of b] by simp
  then show ?thesis by (simp add: fromCharCode_def)
qed

lemma sextet_bounds:
  fixes x y z :: nat
  assumes "x < 256" "y < 256" "z < 256"
  shows "x div 4 < 64" "(x mod 4) * 16 + y div 16 < 64" "(x mod 4) * 16 < 64"
    "(y mod 16) * 4 + z div 64 < 64" "(y mod 16) * 4 < 64" "z mod 64 < 64"
proof -
  have b: "x div 4 < 64" "x mod 4 < 4" "y div 16 < 16" "y mod 16 < 16" "z div 64 < 4"
    "z mod 64 < 64"
    using assms by (simp_all add: less_mult_imp_div_less)
  show "x div 4 < 64" "(x mod 4) * 16 + y div 16 < 64" "(x mod 4) * 16 < 64"
    "(y mod 16) * 4 + z div 64 < 64" "(y mod 16) * 4 < 64" "z mod 64 < 64"
    using b by linarith+
qed

lemma regroup:
  fixes x y z :: nat
  assumes "x < 256" "y < 256" "z < 256"
  shows "x div 4 * 4 + ((x mod 4) * 16 + y div 16) div 16 = x"
    "(((x mod 4) * 16 + y div 16) mod 16) * 16 + ((y mod 16) * 4 + z div 64) div 4 = y"
    "(((y mod 16) * 4 + z div 64) mod 4) * 64 + z mod 64 = z"
    "x div 4 * 4 + ((x mod 4) * 16) div 16 = x"
    "(((x mod 4) * 16 + y div 16) mod 16) * 16 + ((y mod 16) * 4) div 4 = y"
proof -
  have b: "y div 16 < 16" "z div 64 < 4"
    using assms by (simp_all add: less_mult_imp_div_less)
  have q1: "((x mod 4) * 16 + y div 16) div 16 = x mod 4"
    and r1: "((x mod 4) * 16 + y div 16) mod 16 = y div 16"
    using b(1) by simp_all
  have q2: "((y mod 16) * 4 + z div 64) div 4 = y mod 16"
    and r2: "((y mod 16) * 4 + z div 64) mod 4 = z div 64"
    using b(2) by simp_all
  show "x div 4 * 4 + ((x mod 4) * 16 + y div 16) div 16 = x"
    by (simp only: q1) simp
  show "(((x mod 4) * 16 + y div 16) mod 16) * 16 + ((y mod 16) * 4 + z div 64) div 4 = y"
    by (simp only: r1 q2) simp
  show "(((y mod 16) * 4 + z div 64) mod 4) * 64 + z mod 64 = z"
    by (simp only: r2) simp
  show "x div 4 * 4 + ((x mod 4) * 16) div 16 = x"
    by simp
  show "(((x mod 4) * 16 + y div 16) mod 16) * 16 + ((y mod 16) * 4) div 4 = y"
    by (simp only: r1) simp
qed

lemma decode_full_group:
  assumes "p < 64" "q < 64" "r < 64" "s < 64"
  shows "decode_groups (b64_char p # b64_char q # b64_char r # b64_char s # remaining)
         = map_option (\<lambda>bytes. group_bytes p q r s @ bytes) (decode_groups remaining)"
  using assms by (cases remaining) (simp_all add: b64_value_char b64_char_not_pad)

lemma decode_two_pads:
  assumes "p < 64" "q < 64"
  shows "decode_groups [b64_char p, b64_char q, CHR ''='', CHR ''='']
         = Some (take 1 (group_bytes p q 0 0))"
  using assms by (simp add: b64_value_char)

lemma decode_one_pad:
  assumes "p < 64" "q < 64" "r < 64"
  shows "decode_groups [b64_char p, b64_char q, b64_char r, CHR ''='']
         = Some (take 2 (group_bytes p q r 0))"
  using assms by (simp add: b64_value_char b64_char_not_pad)

lemma group_bytes_three:
  fixes x y z :: nat
  assumes "x < 256" "y < 256" "z < 256"
  shows "group_bytes (x div 4) ((x mod 4) * 16 + y div 16) ((y mod 16) * 4 + z div 64) (z mod 64)
         = [of_nat x, of_nat y, of_nat z]"
  by (simp only: group_bytes_def regroup [OF assms])

lemma group_bytes_two:
  fixes x y :: nat
  assumes "x < 256" "y < 256"
  shows "take 2 (group_bytes (x div 4) ((x mod 4) * 16 + y div 16) ((y mod 16) * 4) 0)
         = [of_nat x, of_nat y]"
proof -
  have "group_bytes (x div 4) ((x mod 4) * 16 + y div 16) ((y mod 16) * 4) 0
        = [of_nat x, of_nat y, of_nat ((((y mod 16) * 4) mod 4) * 64 + 0)]"
    by (simp only: group_bytes_def regroup [OF assms assms(2)])
  then show ?thesis by simp
qed

lemma group_bytes_one:
  fixes x :: nat
  assumes "x < 256"
  shows "take 1 (group_bytes (x div 4) ((x mod 4) * 16) 0 0) = [of_nat x]"
proof -
  have "group_bytes (x div 4) ((x mod 4) * 16) 0 0
        = [of_nat x, of_nat ((((x mod 4) * 16) mod 16) * 16 + 0 div 4), of_nat ((0 mod 4) * 64 + 0)]"
    by (simp only: group_bytes_def regroup [OF assms assms assms])
  then show ?thesis by simp
qed

lemma decode_groups_btoa: "decode_groups (btoa s) = Some (map byte_of_char s)"
proof (induction s rule: btoa.induct)
  case 1
  show ?case by simp
next
  case (2 a)
  have x: "(of_char a :: nat) < 256" by simp
  have "decode_groups (btoa [a])
        = Some (take 1 (group_bytes (of_char a div 4) ((of_char a mod 4) * 16) 0 0))"
    using decode_two_pads sextet_bounds [OF x x x] by (simp add: Let_def del: decode_groups.simps)
  then show ?case
    by (simp only: group_bytes_one [OF x]) (simp add: byte_of_char_def)
next
  case (3 a b)
  have x: "(of_char a :: nat) < 256" and y: "(of_char b :: nat) < 256" by simp_all
  have "decode_groups (btoa [a, b])
        = Some (take 2 (group_bytes (of_char a div 4) ((of_char a mod 4) * 16 + of_char b div 16)
                  ((of_char b mod 16) * 4) 0))"
    using decode_one_pad sextet_bounds [OF x y y] by (simp add: Let_def del: decode_groups.simps)
  then show ?case
    by (simp only: group_bytes_two [OF x y]) (simp add: byte_of_char_def)
next
  case (4 a b c rest)
  have x: "(of_char a :: nat) < 256" and y: "(of_char b :: nat) < 256"
    and z: "(of_char c :: nat) < 256" by simp_all
  have "decode_groups (btoa (a # b # c # rest))
        = map_option
            ((@) (group_bytes (of_char a div 4) ((of_char a mod 4) * 16 + of_char b div 16)
                  ((of_char b mod 16) * 4 + of_char c div 64) (of_char c mod 64)))
            (decode_groups (btoa rest))"
    using decode_full_group sextet_bounds [OF x y z]
    by (simp add: Let_def del: decode_groups.simps)
  then show ?case
    by (simp only: group_bytes_three [OF x y z] "4.IH") (simp add: byte_of_char_def)
qed

lemma byte_of_fromCharCode: "byte_of_char (fromCharCode b) = b"
  by (simp add: byte_of_char_def of_char_fromCharCode)

lemma btoa_alphabet: "ch \<in> set (btoa s) \<Longrightarrow> ch \<in> set base64_alphabet \<or> ch = CHR ''=''"
proof (induction s arbitrary: ch rule: btoa.induct)
  case 1
  then show ?case by simp
next
  case (2 a)
  have x: "(of_char a :: nat) < 256" by simp
  from 2 show ?case
    by (auto simp add: Let_def b64_char_in sextet_bounds [OF x x x])
next
  case (3 a b)
  have x: "(of_char a :: nat) < 256" and y: "(of_char b :: nat) < 256" by simp_all
  from 3 show ?case
    by (auto simp add: Let_def b64_char_in sextet_bounds [OF x y y])
next
  case (4 a b c rest)
  have x: "(of_char a :: nat) < 256" and y: "(of_char b :: nat) < 256"
    and z: "(of_char c :: nat) < 256" by simp_all
  from 4 show ?case
    by (auto simp add: Let_def b64_char_in sextet_bounds [OF x y z])
qed

lemma btoa_no_newline: "CHR 0x0A \<notin> set (btoa s)"
  using btoa_alphabet [of "CHR 0x0A" s] by (auto simp add: base64_alphabet_def)

lemma base64_d_echo: "base64_d (btoa s @ [CHR 0x0A]) = Some (map byte_of_char s)"
proof -
  have "filter (\<lambda>c. c \<noteq> CHR 0x0A) (btoa s) = btoa s"
    using btoa_no_newline [of s] by (simp add: filter_id_conv) metis
  then show ?thesis
    by (simp add: base64_d_def decode_groups_btoa)
qed

lemma base64_d_binary_string:
  "base64_d (btoa (binary_string bytes) @ [CHR 0x0A]) = Some bytes"
  by (simp add: base64_d_echo binary_string_map byte_of_fromCharCode cong: map_cong)

lemma decode_binary_string: "decode_groups (btoa (binary_string bytes)) = Some bytes"
  by (simp add: decode_groups_btoa binary_string_map byte_of_fromCharCode cong: map_cong)

lemma enc_sample: "TextEncoder_encode [0x6B, 0x3A, 0xE9, 0x20AC, 0xD83D, 0xDE00]
    = [0x6B, 0x3A, 0xC3, 0xA9, 0xE2, 0x82, 0xAC, 0xF0, 0x9F, 0x98, 0x80]"
  by (simp add: TextEncoder_encode_def utf8_bytes_def is_high_surrogate_def is_low_surrogate_def)

lemma btoa_sample: "btoa (binary_string [0x6B, 0x3A, 0xC3, 0xA9, 0xE2, 0x82, 0xAC, 0xF0, 0x9F, 0x98, 0x80])
   = ''azrDqeKCrPCfmIA=''"
  by (simp add: binary_string_def fromCharCode_def b64_char_def base64_alphabet_def)

text \<open>
  Claim C10. The encoding of the fallback round-trips: for every content, decoding the
  value \<^verbatim>\<open>btoa\<close> produces from the byte-to-character mapping of the content's
  UTF-8 bytes gives back exactly those bytes, with or without the line feed that
  \<^verbatim>\<open>echo\<close> appends. So when the native write is missing, the file written at
  the path holds the UTF-8 bytes of the content passed in.
\<close>

theorem base64_fallback_roundtrip:
  "decode_groups (btoa (binary_string (TextEncoder_encode content)))
     = Some (TextEncoder_encode content)
   \<and> base64_d (btoa (binary_string (TextEncoder_encode content)) @ [CHR 0x0A])
     = Some (TextEncoder_encode content)
   \<and> (native_writeTextFile sandbox = None \<longrightarrow>
        writeFileToSandbox sandbox path content
          = Some (sandbox\<lparr>files := (files sandbox)(path \<mapsto> TextEncoder_encode content)\<rparr>))"
  by (simp add: writeFileToSandbox_def sh_echo_base64_d_def base64_d_binary_string
      decode_binary_string)

theorem base64_fallback_roundtrip_witness:
  "native_writeTextFile bare_sandbox = None
   \<and> btoa (binary_string (TextEncoder_encode [0x6B, 0x3A, 0xE9, 0x20AC, 0xD83D, 0xDE00]))
       = ''azrDqeKCrPCfmIA=''
   \<and> writeFileToSandbox bare_sandbox ''/etc/agentsh/config.yaml''
         [0x6B, 0x3A, 0xE9, 0x20AC, 0xD83D, 0xDE00]
       = Some (bare_sandbox\<lparr>files := Map.empty(''/etc/agentsh/config.yaml'' \<mapsto>
           [0x6B, 0x3A, 0xC3, 0xA9, 0xE2, 0x82, 0xAC, 0xF0, 0x9F, 0x98, 0x80])\<rparr>)"
proof -
  have n: "native_writeTextFile bare_sandbox = None"
    and f: "files bare_sandbox = Map.empty"
    by (simp_all add: bare_sandbox_def)
  show ?thesis
    using base64_fallback_roundtrip
      [of "[0x6B, 0x3A, 0xE9, 0x20AC, 0xD83D, 0xDE00]" bare_sandbox
          "''/etc/agentsh/config.yaml''"]
    by (simp add: enc_sample btoa_sample n f)
qed

section \<open>Properties of provisioning\<close>














lemma granted_agent_only: "granted_commands sudoers_line = ''/usr/bin/agentsh''"
  by (simp add: granted_commands_def sudoers_line_def trim_def is_space_def)

lemma granted_all: "granted_commands (sudoers_line_sudo sbUser) = ''ALL''"
  by (simp add: granted_commands_def sudoers_line_sudo_def trim_def is_space_def)

lemma trim_app: "trim [CHR ''a'', CHR ''p'', CHR ''p'', CHR 0x0A] = ''app''"
  by (simp add: trim_def is_space_def)

lemma bootstrap_ok_world:
  "Sh sudoers_cmd \<in> set (snd (createAgentshSandbox ok_world default_options))"
  by (simp add: createAgentshSandbox_def with_cleanup_def bootstrap_def Let_def bind_step_def
      perform_def detached_def succeed_def ok_world_def)

lemma bootstrap_sudo_ok_world:
  "Sh (sudoers_cmd_sudo ''app'') \<in> set (snd (createAgentshSandbox_sudo ok_world default_options))"
  by (simp add: createAgentshSandbox_sudo_def with_cleanup_def bootstrap_sudo_def Let_def
      bind_step_def perform_def detached_def succeed_def ok_world_def trim_app
      default_options_def nullish_def)

text \<open>
  Claim C5. The sudoers entry of the version in \<^verbatim>\<open>part_000\<close> grants
  \<^verbatim>\<open>/usr/bin/agentsh\<close> only. The entry of the version with
  \<^verbatim>\<open>.sudo()\<close> grants \<^verbatim>\<open>ALL\<close> to whatever user the sandbox reports,
  which is the blanket elevation the claim excludes. Both entries are written in a run
  in which every step succeeds.
\<close>

theorem sudoers_grant_of_each_version:
  "granted_commands sudoers_line = ''/usr/bin/agentsh''
   \<and> Sh sudoers_cmd \<in> set (snd (createAgentshSandbox ok_world default_options))
   \<and> fst (createAgentshSandbox ok_world default_options) = Inr ''sbx-1''
   \<and> granted_commands (sudoers_line_sudo sbUser) = ''ALL''
   \<and> Sh (sudoers_cmd_sudo ''app'')
        \<in> set (snd (createAgentshSandbox_sudo ok_world default_options))
   \<and> fst (createAgentshSandbox_sudo ok_world default_options) = Inr ''sbx-1''"
  by (simp add: granted_agent_only granted_all bootstrap_ok_world bootstrap_sudo_ok_world)
    (simp add: createAgentshSandbox_def createAgentshSandbox_sudo_def with_cleanup_def
      bootstrap_def bootstrap_sudo_def Let_def bind_step_def
      perform_def detached_def succeed_def ok_world_def default_options_def nullish_def)

section \<open>Properties of the readiness wait\<close>






section \<open>Properties of the test runner\<close>







end
